theory Spec2Isabelle
  imports Complex_Main
begin

section \<open>Customer ledger: the store of \<^verbatim>\<open>src/app/page.tsx\<close>\<close>

text \<open>
  The component \<^verbatim>\<open>CustomerLedger\<close> keeps two arrays in React state, \<^verbatim>\<open>customers\<close> and
  \<^verbatim>\<open>transactions\<close>, and changes them in three handlers: \<^verbatim>\<open>handleCustomerSubmit\<close>,
  \<^verbatim>\<open>handleTransactionSubmit\<close> and \<^verbatim>\<open>deleteCustomer\<close>. Each handler is embedded as a function
  from the state before the event to the state after it, paired with the notification it shows.
  What a handler reads from outside (the clock, the submitted form) is an argument.
\<close>

subsection \<open>JavaScript numbers\<close>

text \<open>
  A \<^verbatim>\<open>number\<close> is \<^verbatim>\<open>NaN\<close>, an infinity or a finite value. Finite values are exact rationals
  here: the rounding of IEEE doubles and the sign of zero are not modelled. Subtraction is
  addition of the opposite number, as in IEEE arithmetic. The proofs below never reorder a sum, so
  they use no law of arithmetic that doubles lack. Equality of numbers is equality of values
  (\<open>NaN = NaN\<close>), not the comparison \<^verbatim>\<open>===\<close>.
\<close>

datatype number = NaN | PInf | NInf | Fin rat

instantiation number :: "{plus,uminus,minus}"
begin

fun plus_number :: "number \<Rightarrow> number \<Rightarrow> number" where
  "plus_number (Fin a) (Fin b) = Fin (a + b)"
| "plus_number (Fin a) PInf = PInf"
| "plus_number (Fin a) NInf = NInf"
| "plus_number PInf (Fin b) = PInf"
| "plus_number PInf PInf = PInf"
| "plus_number NInf (Fin b) = NInf"
| "plus_number NInf NInf = NInf"
| "plus_number _ _ = NaN"

fun uminus_number :: "number \<Rightarrow> number" where
  "uminus_number NaN = NaN"
| "uminus_number PInf = NInf"
| "uminus_number NInf = PInf"
| "uminus_number (Fin a) = Fin (- a)"

definition minus_number :: "number \<Rightarrow> number \<Rightarrow> number" where
  "minus_number x y = x + (- y)"

instance ..

end

text \<open>The falsy numbers of JavaScript are \<^verbatim>\<open>NaN\<close> and zero; \<^verbatim>\<open>x || y\<close> is \<^verbatim>\<open>y\<close> for a falsy \<^verbatim>\<open>x\<close>.\<close>

definition truthy :: "number \<Rightarrow> bool" where
  "truthy x = (x \<noteq> NaN \<and> x \<noteq> Fin 0)"

definition orElse :: "number \<Rightarrow> number \<Rightarrow> number" where
  "orElse x y = (if truthy x then x else y)"

subsection \<open>The runtime functions the handlers call\<close>

text \<open>
  \<^verbatim>\<open>parseFloat\<close> skips leading white space and reads the longest prefix that is a decimal
  literal: an optional sign, then \<^verbatim>\<open>Infinity\<close> or digits with an optional fraction and an
  optional exponent. With no such prefix the result is \<^verbatim>\<open>NaN\<close>. Only the ASCII white space
  characters are recognised.
\<close>

definition isWhiteSpace :: "char \<Rightarrow> bool" where
  "isWhiteSpace c = (c \<in> set [CHR '' '', CHR 0x09, CHR 0x0A, CHR 0x0B, CHR 0x0C, CHR 0x0D])"

definition isDigit :: "char \<Rightarrow> bool" where
  "isDigit c = (c \<in> set ''0123456789'')"

definition digitValue :: "char \<Rightarrow> nat" where
  "digitValue c = of_char c - 48"

definition digitsValue :: "string \<Rightarrow> nat" where
  "digitsValue ds = foldl (\<lambda>acc c. 10 * acc + digitValue c) 0 ds"

definition scale10 :: "rat \<Rightarrow> int \<Rightarrow> rat" where
  "scale10 m e = (if 0 \<le> e then m * 10 ^ nat e else m / 10 ^ nat (- e))"

definition exponentPart :: "string \<Rightarrow> int" where
  "exponentPart s =
     (case s of
        [] \<Rightarrow> 0
      | c # r \<Rightarrow>
          if c = CHR ''e'' \<or> c = CHR ''E'' then
            (case r of
               [] \<Rightarrow> 0
             | d # r' \<Rightarrow>
                 if d = CHR ''-'' then - int (digitsValue (takeWhile isDigit r'))
                 else if d = CHR ''+'' then int (digitsValue (takeWhile isDigit r'))
                 else int (digitsValue (takeWhile isDigit r)))
          else 0)"

definition unsignedLiteral :: "string \<Rightarrow> number" where
  "unsignedLiteral s =
     (if take 8 s = ''Infinity'' then PInf
      else
        (let ip = takeWhile isDigit s;
             r1 = dropWhile isDigit s;
             fp = (case r1 of [] \<Rightarrow> [] | c # r \<Rightarrow> if c = CHR ''.'' then takeWhile isDigit r else []);
             r2 = (case r1 of [] \<Rightarrow> [] | c # r \<Rightarrow> if c = CHR ''.'' then dropWhile isDigit r else r1)
         in if ip = [] \<and> fp = [] then NaN
            else Fin (scale10 (of_nat (digitsValue (ip @ fp)))
                        (exponentPart r2 - int (length fp)))))"

definition parseFloat :: "string \<Rightarrow> number" where
  "parseFloat str =
     (case dropWhile isWhiteSpace str of
        [] \<Rightarrow> NaN
      | c # r \<Rightarrow>
          if c = CHR ''-'' then - unsignedLiteral r
          else if c = CHR ''+'' then unsignedLiteral r
          else unsignedLiteral (c # r))"

text \<open>\<^verbatim>\<open>Date.now().toString()\<close>: the decimal digits of the clock's milliseconds.\<close>

function natToString :: "nat \<Rightarrow> string" where
  "natToString n =
     (if n < 10 then [''0123456789'' ! n]
      else natToString (n div 10) @ [''0123456789'' ! (n mod 10)])"
  by pat_completeness auto
termination
  by (relation "measure (\<lambda>n. n)") auto

declare natToString.simps [simp del]

text \<open>
  What a handler reads from the clock: \<^verbatim>\<open>Date.now()\<close>, \<^verbatim>\<open>new Date().toLocaleDateString()\<close>
  and \<^verbatim>\<open>new Date().toISOString()\<close>.
\<close>

record Env =
  Date_now :: nat
  toLocaleDateString :: string
  toISOString :: string

subsection \<open>Data model\<close>

text \<open>The fields of the two forms, read with \<^verbatim>\<open>formData.get\<close>.\<close>

record CustomerForm =
  customerName :: string
  customerPhone :: string
  customerEmail :: string
  customerAddress :: string
  openingBalance :: string
  customerNotes :: string

record TransactionForm =
  transactionCustomer :: string
  transactionType :: string
  transactionAmount :: string
  transactionDate :: string
  transactionDescription :: string

text \<open>The field \<^verbatim>\<open>notes\<close> is written \<open>notes'\<close>: the plain name is a keyword of Isabelle.\<close>

record Customer =
  id :: string
  name :: string
  phone :: string
  email :: string
  address :: string
  openingBalance :: number
  notes' :: string
  balance :: number
  lastTransaction :: string

text \<open>
  The field \<^verbatim>\<open>type\<close> is declared \<^verbatim>\<open>'debit' | 'credit'\<close>, but it is filled by an unchecked cast of
  the form's string, and the handler only compares it with \<^verbatim>\<open>'debit'\<close>; it stays a string.
\<close>

record Transaction =
  id :: string
  customerId :: string
  type :: string
  amount :: number
  date :: string
  description :: string
  balance :: number

record State =
  customers :: "Customer list"
  transactions :: "Transaction list"

datatype NotificationType = success | error

type_synonym Notification = "string \<times> NotificationType"

text \<open>\<^verbatim>\<open>useState([])\<close> for both arrays.\<close>

definition initialState :: State where
  "initialState = \<lparr> customers = [], transactions = [] \<rparr>"

subsection \<open>The handlers\<close>

text \<open>
  \<^verbatim>\<open>setCustomers(prev => f(prev))\<close> and \<^verbatim>\<open>setTransactions(prev => f(prev))\<close> queue an updater.
  React applies the updaters that one event handler queues in the order of the calls and
  renders once, after the handler has returned: the state after the handler is the composition of
  its updaters, and a handler is one transition of the store. Events are handled one at a time,
  each after the render that follows the one before it, so the \<^verbatim>\<open>customers\<close> a handler reads is
  the state its updaters are applied to. The reset of the submitted form is not modelled.
\<close>

definition setCustomers :: "(Customer list \<Rightarrow> Customer list) \<Rightarrow> State \<Rightarrow> State" where
  "setCustomers f s = s\<lparr> customers := f (customers s) \<rparr>"

definition setTransactions :: "(Transaction list \<Rightarrow> Transaction list) \<Rightarrow> State \<Rightarrow> State" where
  "setTransactions f s = s\<lparr> transactions := f (transactions s) \<rparr>"

text \<open>
  \<^verbatim>\<open>showNotification(message, type)\<close> is the second component of a handler's result; \<open>None\<close> is a
  handler that returns without showing one. The locals \<^verbatim>\<open>customerId\<close>, \<^verbatim>\<open>type\<close>, \<^verbatim>\<open>amount\<close>,
  \<^verbatim>\<open>date\<close> and \<^verbatim>\<open>description\<close> of the source are \<open>cid\<close>, \<open>ty\<close>, \<open>amt\<close>, \<open>dt\<close> and \<open>descr\<close>: the plain
  names are the fields of a transaction.
\<close>

definition handleCustomerSubmit ::
  "Env \<Rightarrow> CustomerForm \<Rightarrow> State \<Rightarrow> State \<times> Notification option" where
  "handleCustomerSubmit env formData s =
     (let newCustomer =
        \<lparr> Customer.id = natToString (Date_now env),
          name = customerName formData,
          phone = customerPhone formData,
          email = customerEmail formData,
          address = customerAddress formData,
          openingBalance = orElse (parseFloat (CustomerForm.openingBalance formData)) (Fin 0),
          notes' = customerNotes formData,
          Customer.balance = orElse (parseFloat (CustomerForm.openingBalance formData)) (Fin 0),
          lastTransaction = toLocaleDateString env \<rparr>
      in (setCustomers (\<lambda>prev. prev @ [newCustomer]) s,
          Some (''Customer added successfully!'', success)))"

definition handleTransactionSubmit ::
  "Env \<Rightarrow> TransactionForm \<Rightarrow> State \<Rightarrow> State \<times> Notification option" where
  "handleTransactionSubmit env formData s =
     (let cid = transactionCustomer formData;
          ty = transactionType formData;
          amt = parseFloat (transactionAmount formData);
          dt = (if transactionDate formData \<noteq> [] then transactionDate formData
                else takeWhile (\<lambda>c. c \<noteq> CHR ''T'') (toISOString env));
          descr = transactionDescription formData
      in case find (\<lambda>c. Customer.id c = cid) (customers s) of
           None \<Rightarrow> (s, None)
         | Some customer \<Rightarrow>
             (let newBalance =
                    (if ty = ''debit'' then Customer.balance customer + amt
                     else Customer.balance customer - amt);
                  newTransaction =
                    \<lparr> Transaction.id = natToString (Date_now env),
                      customerId = cid,
                      type = ty,
                      amount = amt,
                      date = dt,
                      description = descr,
                      Transaction.balance = newBalance \<rparr>
              in (setCustomers
                    (\<lambda>prev. map (\<lambda>c. if Customer.id c = cid
                                       then c\<lparr> Customer.balance := newBalance,
                                               lastTransaction := toLocaleDateString env \<rparr>
                                       else c) prev)
                    (setTransactions (\<lambda>prev. prev @ [newTransaction]) s),
                  Some (''Transaction recorded successfully!'', success))))"

definition deleteCustomer :: "string \<Rightarrow> State \<Rightarrow> State \<times> Notification option" where
  "deleteCustomer cid s =
     (setTransactions (\<lambda>prev. filter (\<lambda>t. customerId t \<noteq> cid) prev)
        (setCustomers (\<lambda>prev. filter (\<lambda>c. Customer.id c \<noteq> cid) prev) s),
      Some (''Customer deleted successfully!'', success))"

text \<open>The history shown for the selected customer: its transactions, in the array's order.\<close>

definition customerTransactions :: "Customer option \<Rightarrow> State \<Rightarrow> Transaction list" where
  "customerTransactions selectedCustomer s =
     (case selectedCustomer of
        Some sel \<Rightarrow> filter (\<lambda>t. customerId t = Customer.id sel) (transactions s)
      | None \<Rightarrow> [])"

subsection \<open>The form in front of \<^verbatim>\<open>handleCustomerSubmit\<close>\<close>



subsection \<open>The persisted copy\<close>





subsection \<open>Sequences of operations\<close>

text \<open>
  An operation is one event: a submitted customer form, a submitted transaction form or a click
  on a customer's delete button, each with what the handler reads from the clock.
\<close>

datatype Op =
    CreateCustomer Env CustomerForm
  | RecordTransaction Env TransactionForm
  | DeleteCustomer string

fun applyOp :: "State \<Rightarrow> Op \<Rightarrow> State" where
  "applyOp s (CreateCustomer env formData) = fst (handleCustomerSubmit env formData s)"
| "applyOp s (RecordTransaction env formData) = fst (handleTransactionSubmit env formData s)"
| "applyOp s (DeleteCustomer cid) = fst (deleteCustomer cid s)"

definition run :: "State \<Rightarrow> Op list \<Rightarrow> State" where
  "run s ops = foldl applyOp s ops"

text \<open>
  A customer's id is the clock's reading at its creation. \<open>freshIds s ops\<close> says that every
  creation in \<open>ops\<close> reads a clock value whose digits are not the id of a customer in the store
  at that moment: ids are unique, as the data model has them.
\<close>

fun freshIds :: "State \<Rightarrow> Op list \<Rightarrow> bool" where
  "freshIds s [] = True"
| "freshIds s (CreateCustomer env formData # ops) =
     (natToString (Date_now env) \<notin> set (map Customer.id (customers s))
      \<and> freshIds (applyOp s (CreateCustomer env formData)) ops)"
| "freshIds s (opn # ops) = freshIds (applyOp s opn) ops"

subsection \<open>The balance engine of the specification\<close>

text \<open>
  The signed amount of a transaction: \<^verbatim>\<open>+amount\<close> for a debit, \<^verbatim>\<open>-amount\<close> for a credit. The
  handler has no such function: it adds or subtracts the amount.
\<close>

definition signedAmount :: "Transaction \<Rightarrow> number" where
  "signedAmount t = (if type t = ''debit'' then amount t else - amount t)"

text \<open>
  The reference function \<^verbatim>\<open>recomputeBalance\<close> of the balance engine. The source has no such
  function: this definition follows the specification's words, to be compared with what the
  handlers store. It folds the signed amounts from left to right, starting from the opening
  balance, and returns the final balance and the balance after each transaction.
\<close>

fun recomputeBalance :: "number \<Rightarrow> Transaction list \<Rightarrow> number \<times> number list" where
  "recomputeBalance b [] = (b, [])"
| "recomputeBalance b (t # ts) =
     (case recomputeBalance (b + signedAmount t) ts of
        (final, afters) \<Rightarrow> (final, (b + signedAmount t) # afters))"

subsection \<open>Invariants of the store\<close>

text \<open>Every transaction refers to a customer of the store.\<close>

definition noOrphans :: "State \<Rightarrow> bool" where
  "noOrphans s =
     (\<forall>t \<in> set (transactions s). customerId t \<in> set (map Customer.id (customers s)))"

text \<open>
  \<open>chained b ts\<close>: each recorded running balance is what the handler computes from the one
  before it, the first from \<open>b\<close>.
\<close>

fun chained :: "number \<Rightarrow> Transaction list \<Rightarrow> bool" where
  "chained b [] = True"
| "chained b (t # ts) =
     (Transaction.balance t = (if type t = ''debit'' then b + amount t else b - amount t)
      \<and> chained (Transaction.balance t) ts)"

definition lastBalance :: "number \<Rightarrow> Transaction list \<Rightarrow> number" where
  "lastBalance b ts = (if ts = [] then b else Transaction.balance (last ts))"

definition ledgerInv :: "State \<Rightarrow> bool" where
  "ledgerInv s =
     (distinct (map Customer.id (customers s))
      \<and> (\<forall>c \<in> set (customers s).
            chained (Customer.openingBalance c) (customerTransactions (Some c) s)
            \<and> Customer.balance c
                = lastBalance (Customer.openingBalance c) (customerTransactions (Some c) s)))"

subsection \<open>Example inputs\<close>

definition clock :: "nat \<Rightarrow> Env" where
  "clock n = \<lparr> Date_now = n, toLocaleDateString = ''11/14/2023'',
               toISOString = ''2023-11-14T22:13:20.000Z'' \<rparr>"

definition customerForm :: "string \<Rightarrow> string \<Rightarrow> CustomerForm" where
  "customerForm nm ob =
     \<lparr> customerName = nm, customerPhone = [], customerEmail = [], customerAddress = [],
       openingBalance = ob, customerNotes = [] \<rparr>"

definition transactionForm :: "string \<Rightarrow> string \<Rightarrow> string \<Rightarrow> TransactionForm" where
  "transactionForm cid ty amt =
     \<lparr> transactionCustomer = cid, transactionType = ty, transactionAmount = amt,
       transactionDate = [], transactionDescription = [] \<rparr>"

definition scenarioOps :: "Op list" where
  "scenarioOps =
     [CreateCustomer (clock 1) (customerForm ''C'' ''100.00''),
      RecordTransaction (clock 2) (transactionForm ''1'' ''debit'' ''50.00''),
      RecordTransaction (clock 3) (transactionForm ''1'' ''credit'' ''30.00'')]"

definition scenarioCustomer :: Customer where
  "scenarioCustomer =
     \<lparr> Customer.id = ''1'', name = ''C'', phone = [], email = [], address = [],
       openingBalance = Fin 100, notes' = [], Customer.balance = Fin 120,
       lastTransaction = ''11/14/2023'' \<rparr>"

definition oneCustomerOps :: "Op list" where
  "oneCustomerOps = [CreateCustomer (clock 1) (customerForm ''C'' ''100.00'')]"

definition twoCustomersOps :: "Op list" where
  "twoCustomersOps =
     [CreateCustomer (clock 1) (customerForm ''A'' ''0''),
      CreateCustomer (clock 2) (customerForm ''B'' ''0'')]"

definition customerB :: Customer where
  "customerB =
     \<lparr> Customer.id = ''2'', name = ''B'', phone = [], email = [], address = [],
       openingBalance = Fin 0, notes' = [], Customer.balance = Fin 0,
       lastTransaction = ''11/14/2023'' \<rparr>"


text \<open>
  Two customers created while \<^verbatim>\<open>Date.now()\<close> reads 5, P with opening balance 10 and Q with opening
  balance 20, and then a debit of 1 for the id 5.
\<close>

definition sameClockOps :: "Op list" where
  "sameClockOps =
     [CreateCustomer (clock 5) (customerForm ''P'' ''10''),
      CreateCustomer (clock 5) (customerForm ''Q'' ''20'')]"

definition sameClockDebit :: TransactionForm where
  "sameClockDebit = transactionForm ''5'' ''debit'' ''1''"

definition customerP :: Customer where
  "customerP =
     \<lparr> Customer.id = ''5'', name = ''P'', phone = [], email = [], address = [],
       openingBalance = Fin 10, notes' = [], Customer.balance = Fin 10,
       lastTransaction = ''11/14/2023'' \<rparr>"

definition customerQ :: Customer where
  "customerQ =
     \<lparr> Customer.id = ''5'', name = ''Q'', phone = [], email = [], address = [],
       openingBalance = Fin 20, notes' = [], Customer.balance = Fin 20,
       lastTransaction = ''11/14/2023'' \<rparr>"

definition customerQDebited :: Customer where
  "customerQDebited = customerQ\<lparr> Customer.balance := Fin 11 \<rparr>"

definition sameClockTransaction :: Transaction where
  "sameClockTransaction =
     \<lparr> Transaction.id = ''6'', customerId = ''5'', type = ''debit'', amount = Fin 1,
       date = ''2023-11-14'', description = [], Transaction.balance = Fin 11 \<rparr>"

section \<open>Lemmas\<close>

subsection \<open>Numbers, updaters, lists\<close>

lemma minus_number_conv: "(x::number) - y = x + (- y)"
  by (simp add: minus_number_def)

lemma set_simps:
  "customers (setCustomers f s) = f (customers s)"
  "transactions (setCustomers f s) = transactions s"
  "customers (setTransactions g s) = customers s"
  "transactions (setTransactions g s) = g (transactions s)"
  by (simp_all add: setCustomers_def setTransactions_def)

lemma history_Some:
  "customerTransactions (Some c) s
   = filter (\<lambda>t. customerId t = Customer.id c) (transactions s)"
  by (simp add: customerTransactions_def)

lemma same_id_same_customer:
  "distinct (map Customer.id cs) \<Longrightarrow> x \<in> set cs \<Longrightarrow> y \<in> set cs \<Longrightarrow>
   Customer.id x = Customer.id y \<Longrightarrow> x = y"
  by (meson distinct_map inj_on_eq_iff)

lemma find_Some_mem: "find P xs = Some x \<Longrightarrow> x \<in> set xs \<and> P x"
  by (induction xs) (auto split: if_splits)

lemma find_None_id:
  "(find (\<lambda>c. Customer.id c = cid) cs = None) = (cid \<notin> set (map Customer.id cs))"
  by (induction cs) auto

lemma filter_map_other:
  "k \<noteq> k' \<Longrightarrow> (\<And>c. Customer.id (g c) = Customer.id c) \<Longrightarrow>
   filter (\<lambda>c. Customer.id c = k') (map (\<lambda>c. if Customer.id c = k then g c else c) cs)
   = filter (\<lambda>c. Customer.id c = k') cs"
  by (induction cs) auto

lemma run_append: "run s (xs @ ys) = run (run s xs) ys"
  by (simp add: run_def)

lemma run_single: "run s [opn] = applyOp s opn"
  by (simp add: run_def)

subsection \<open>Chains of running balances\<close>

lemma chained_step:
  "chained b (t # ts)
   = (Transaction.balance t = b + signedAmount t \<and> chained (Transaction.balance t) ts)"
  by (simp add: signedAmount_def minus_number_conv)

lemma lastBalance_Cons: "lastBalance b (t # ts) = lastBalance (Transaction.balance t) ts"
  by (simp add: lastBalance_def)

lemma lastBalance_snoc: "lastBalance b (ts @ [t]) = Transaction.balance t"
  by (simp add: lastBalance_def)

lemma chained_snoc:
  "chained b (ts @ [t])
   = (chained b ts \<and> Transaction.balance t = lastBalance b ts + signedAmount t)"
proof (induction ts arbitrary: b)
  case Nil
  show ?case by (simp add: lastBalance_def signedAmount_def minus_number_conv)
next
  case (Cons u us)
  show ?case
    using Cons.IH [of "Transaction.balance u"]
    by (simp add: lastBalance_Cons del: chained.simps add: chained_step)
qed

lemma chained_foldl:
  "chained b ts \<Longrightarrow> foldl (\<lambda>acc t. acc + signedAmount t) b ts = lastBalance b ts"
proof (induction ts arbitrary: b)
  case Nil
  show ?case by (simp add: lastBalance_def)
next
  case (Cons u us)
  from Cons.prems have bu: "Transaction.balance u = b + signedAmount u"
    and ch: "chained (Transaction.balance u) us"
    unfolding chained_step by blast+
  from Cons.IH [OF ch] bu show ?case by (simp add: lastBalance_Cons)
qed

lemma chained_recompute:
  "chained b ts \<Longrightarrow> recomputeBalance b ts = (lastBalance b ts, map Transaction.balance ts)"
proof (induction ts arbitrary: b)
  case Nil
  show ?case by (simp add: lastBalance_def)
next
  case (Cons u us)
  from Cons.prems have bu: "Transaction.balance u = b + signedAmount u"
    and ch: "chained (Transaction.balance u) us"
    unfolding chained_step by blast+
  from Cons.IH [OF ch] bu show ?case by (simp add: lastBalance_Cons)
qed

lemma chained_nth:
  "chained b ts \<Longrightarrow> i < length ts \<Longrightarrow>
   Transaction.balance (ts ! i)
   = (if i = 0 then b else Transaction.balance (ts ! (i - 1))) + signedAmount (ts ! i)"
proof (induction ts arbitrary: b i)
  case Nil
  then show ?case by simp
next
  case (Cons u us)
  from Cons.prems(1) have bu: "Transaction.balance u = b + signedAmount u"
    and ch: "chained (Transaction.balance u) us"
    unfolding chained_step by blast+
  show ?case
  proof (cases i)
    case 0
    with bu show ?thesis by simp
  next
    case (Suc j)
    with Cons.prems(2) have j: "j < length us" by simp
    from Cons.IH [OF ch j] Suc show ?thesis by (cases j) simp_all
  qed
qed

subsection \<open>What each handler does to the two arrays\<close>

lemma create_customers:
  "\<exists>c. customers (fst (handleCustomerSubmit env f s)) = customers s @ [c]
     \<and> Customer.id c = natToString (Date_now env)
     \<and> name c = customerName f
     \<and> Customer.openingBalance c = orElse (parseFloat (CustomerForm.openingBalance f)) (Fin 0)
     \<and> Customer.balance c = Customer.openingBalance c"
  by (simp add: handleCustomerSubmit_def Let_def set_simps)

lemma create_transactions:
  "transactions (fst (handleCustomerSubmit env f s)) = transactions s"
  by (simp add: handleCustomerSubmit_def Let_def set_simps)

lemma record_not_found:
  "find (\<lambda>c. Customer.id c = transactionCustomer f) (customers s) = None \<Longrightarrow>
   handleTransactionSubmit env f s = (s, None)"
  by (simp add: handleTransactionSubmit_def Let_def)

lemma record_customers:
  "find (\<lambda>c. Customer.id c = transactionCustomer f) (customers s) = Some customer \<Longrightarrow>
   customers (fst (handleTransactionSubmit env f s)) =
     map (\<lambda>c. if Customer.id c = transactionCustomer f
               then c\<lparr> Customer.balance :=
                         (if transactionType f = ''debit''
                          then Customer.balance customer + parseFloat (transactionAmount f)
                          else Customer.balance customer - parseFloat (transactionAmount f)),
                       lastTransaction := toLocaleDateString env \<rparr>
               else c) (customers s)"
  by (simp add: handleTransactionSubmit_def Let_def set_simps)

lemma record_transactions:
  "find (\<lambda>c. Customer.id c = transactionCustomer f) (customers s) = Some customer \<Longrightarrow>
   \<exists>t. transactions (fst (handleTransactionSubmit env f s)) = transactions s @ [t]
     \<and> customerId t = transactionCustomer f
     \<and> type t = transactionType f
     \<and> amount t = parseFloat (transactionAmount f)
     \<and> Transaction.balance t =
         (if transactionType f = ''debit''
          then Customer.balance customer + parseFloat (transactionAmount f)
          else Customer.balance customer - parseFloat (transactionAmount f))"
  by (simp add: handleTransactionSubmit_def Let_def set_simps)

lemma record_ids:
  "map Customer.id (customers (fst (handleTransactionSubmit env f s)))
   = map Customer.id (customers s)"
proof (cases "find (\<lambda>c. Customer.id c = transactionCustomer f) (customers s)")
  case None
  then show ?thesis by (simp add: record_not_found)
next
  case (Some customer)
  show ?thesis
    unfolding record_customers [OF Some] by (induction "customers s") simp_all
qed

lemma delete_customers:
  "customers (fst (deleteCustomer cid s)) = filter (\<lambda>c. Customer.id c \<noteq> cid) (customers s)"
  by (simp add: deleteCustomer_def set_simps)

lemma delete_transactions:
  "transactions (fst (deleteCustomer cid s))
   = filter (\<lambda>t. customerId t \<noteq> cid) (transactions s)"
  by (simp add: deleteCustomer_def set_simps)

subsection \<open>No transaction without its customer\<close>

lemma noOrphans_initial: "noOrphans initialState"
  by (simp add: noOrphans_def initialState_def)

lemma noOrphans_create: "noOrphans s \<Longrightarrow> noOrphans (fst (handleCustomerSubmit env f s))"
  using create_customers [of env f s]
  by (auto simp: noOrphans_def create_transactions)

lemma noOrphans_record: "noOrphans s \<Longrightarrow> noOrphans (fst (handleTransactionSubmit env f s))"
proof (cases "find (\<lambda>c. Customer.id c = transactionCustomer f) (customers s)")
  case None
  assume "noOrphans s"
  with None show ?thesis by (simp add: record_not_found)
next
  case (Some customer)
  assume inv: "noOrphans s"
  from find_Some_mem [OF Some]
  have mem: "transactionCustomer f \<in> set (map Customer.id (customers s))"
    by force
  from record_transactions [OF Some, of env] obtain t where
    t: "transactions (fst (handleTransactionSubmit env f s)) = transactions s @ [t]"
       "customerId t = transactionCustomer f" by blast
  show ?thesis
    unfolding noOrphans_def record_ids t(1) using inv mem t(2) by (auto simp: noOrphans_def)
qed

lemma noOrphans_delete: "noOrphans s \<Longrightarrow> noOrphans (fst (deleteCustomer cid s))"
  by (auto simp: noOrphans_def delete_customers delete_transactions)

lemma noOrphans_applyOp: "noOrphans s \<Longrightarrow> noOrphans (applyOp s opn)"
  by (cases opn) (simp_all add: noOrphans_create noOrphans_record noOrphans_delete)

lemma noOrphans_run: "noOrphans s \<Longrightarrow> noOrphans (run s ops)"
  unfolding run_def by (induction ops arbitrary: s) (simp_all add: noOrphans_applyOp)

subsection \<open>The ledger invariant\<close>

lemma ledgerInv_initial: "ledgerInv initialState"
  by (simp add: ledgerInv_def initialState_def)

lemma ledgerInv_create:
  assumes inv: "ledgerInv s" and orph: "noOrphans s"
    and fresh: "natToString (Date_now env) \<notin> set (map Customer.id (customers s))"
  shows "ledgerInv (fst (handleCustomerSubmit env f s))"
proof -
  let ?s' = "fst (handleCustomerSubmit env f s)"
  from create_customers [of env f s] obtain c where
    cs: "customers ?s' = customers s @ [c]"
    and idc: "Customer.id c = natToString (Date_now env)"
    and bal: "Customer.balance c = Customer.openingBalance c" by blast
  have ts: "transactions ?s' = transactions s" by (rule create_transactions)
  have hist: "customerTransactions (Some x) ?s' = customerTransactions (Some x) s" for x
    by (simp add: history_Some ts)
  have "customerId t \<noteq> Customer.id c" if "t \<in> set (transactions s)" for t
  proof -
    from orph that have "customerId t \<in> set (map Customer.id (customers s))"
      by (simp add: noOrphans_def)
    with fresh idc show ?thesis by auto
  qed
  then have empty: "customerTransactions (Some c) s = []"
    by (simp add: history_Some filter_empty_conv)
  have d: "distinct (map Customer.id (customers ?s'))"
    using inv fresh idc by (simp add: cs ledgerInv_def)
  have old: "chained (Customer.openingBalance x) (customerTransactions (Some x) ?s')
      \<and> Customer.balance x
          = lastBalance (Customer.openingBalance x) (customerTransactions (Some x) ?s')"
    if "x \<in> set (customers s)" for x
    using inv that by (simp add: ledgerInv_def hist)
  have new: "chained (Customer.openingBalance c) (customerTransactions (Some c) ?s')
      \<and> Customer.balance c
          = lastBalance (Customer.openingBalance c) (customerTransactions (Some c) ?s')"
    by (simp add: hist empty bal lastBalance_def)
  show ?thesis
    unfolding ledgerInv_def using d old new by (auto simp: cs)
qed

lemma ledgerInv_record:
  assumes inv: "ledgerInv s"
  shows "ledgerInv (fst (handleTransactionSubmit env f s))"
proof (cases "find (\<lambda>c. Customer.id c = transactionCustomer f) (customers s)")
  case None
  with inv show ?thesis by (simp add: record_not_found)
next
  case (Some customer)
  let ?s' = "fst (handleTransactionSubmit env f s)"
  let ?cid = "transactionCustomer f"
  let ?nb = "if transactionType f = ''debit''
             then Customer.balance customer + parseFloat (transactionAmount f)
             else Customer.balance customer - parseFloat (transactionAmount f)"
  let ?upd = "\<lambda>c. if Customer.id c = ?cid
                   then c\<lparr> Customer.balance := ?nb, lastTransaction := toLocaleDateString env \<rparr>
                   else c"
  from find_Some_mem [OF Some]
  have cust: "customer \<in> set (customers s)" "Customer.id customer = ?cid"
    by simp_all
  have cs: "customers ?s' = map ?upd (customers s)" by (rule record_customers [OF Some])
  from record_transactions [OF Some, of env] obtain t where
    ts: "transactions ?s' = transactions s @ [t]"
    and tc: "customerId t = ?cid"
    and tt: "type t = transactionType f"
    and ta: "amount t = parseFloat (transactionAmount f)"
    and tb: "Transaction.balance t = ?nb" by blast
  have signed: "?nb = Customer.balance customer + signedAmount t"
    by (simp add: signedAmount_def tt ta minus_number_conv)
  have d: "distinct (map Customer.id (customers ?s'))"
    using inv by (simp add: record_ids ledgerInv_def)
  have each: "chained (Customer.openingBalance (?upd x)) (customerTransactions (Some (?upd x)) ?s')
      \<and> Customer.balance (?upd x)
          = lastBalance (Customer.openingBalance (?upd x))
              (customerTransactions (Some (?upd x)) ?s')"
    if x: "x \<in> set (customers s)" for x
  proof (cases "Customer.id x = ?cid")
    case False
    then have "customerTransactions (Some x) ?s' = customerTransactions (Some x) s"
      by (simp add: history_Some ts tc)
    with inv x False show ?thesis by (simp add: ledgerInv_def)
  next
    case True
    with inv x cust have xc: "x = customer"
      by (auto simp: ledgerInv_def intro: same_id_same_customer)
    have h: "customerTransactions (Some (?upd x)) ?s' = customerTransactions (Some x) s @ [t]"
      using True by (simp add: history_Some ts tc)
    from inv x have ch: "chained (Customer.openingBalance x) (customerTransactions (Some x) s)"
      and lb: "Customer.balance x
               = lastBalance (Customer.openingBalance x) (customerTransactions (Some x) s)"
      by (simp_all add: ledgerInv_def)
    have ob: "Customer.openingBalance (?upd x) = Customer.openingBalance x" by simp
    have nb: "Customer.balance (?upd x) = ?nb" using True by simp
    show ?thesis
      unfolding h ob nb chained_snoc lastBalance_snoc
      using ch lb tb signed xc by simp
  qed
  show ?thesis
    unfolding ledgerInv_def
  proof (intro conjI ballI)
    show "distinct (map Customer.id (customers ?s'))" by (rule d)
  next
    fix c' assume "c' \<in> set (customers ?s')"
    then obtain x where x: "x \<in> set (customers s)" and c': "c' = ?upd x"
      unfolding cs by auto
    from each [OF x]
    show "chained (Customer.openingBalance c') (customerTransactions (Some c') ?s')"
      unfolding c' by blast
    from each [OF x]
    show "Customer.balance c'
          = lastBalance (Customer.openingBalance c') (customerTransactions (Some c') ?s')"
      unfolding c' by blast
  qed
qed

lemma ledgerInv_delete:
  assumes inv: "ledgerInv s"
  shows "ledgerInv (fst (deleteCustomer cid s))"
proof -
  let ?s' = "fst (deleteCustomer cid s)"
  have hist: "customerTransactions (Some x) ?s' = customerTransactions (Some x) s"
    if "Customer.id x \<noteq> cid" for x
    using that by (auto simp: history_Some delete_transactions intro: filter_cong)
  have d: "distinct (map Customer.id (customers ?s'))"
    using inv by (simp add: delete_customers ledgerInv_def distinct_map_filter)
  show ?thesis
    unfolding ledgerInv_def using d inv by (auto simp: delete_customers hist ledgerInv_def)
qed

lemma ledgerInv_run:
  "ledgerInv s \<Longrightarrow> noOrphans s \<Longrightarrow> freshIds s ops \<Longrightarrow> ledgerInv (run s ops)"
proof (induction ops arbitrary: s)
  case Nil
  then show ?case by (simp add: run_def)
next
  case (Cons opn ops)
  have step: "ledgerInv (applyOp s opn)"
  proof (cases opn)
    case (CreateCustomer env f)
    with Cons.prems show ?thesis by (simp add: ledgerInv_create)
  next
    case (RecordTransaction env f)
    with Cons.prems show ?thesis by (simp add: ledgerInv_record)
  next
    case (DeleteCustomer cid)
    with Cons.prems show ?thesis by (simp add: ledgerInv_delete)
  qed
  have fresh: "freshIds (applyOp s opn) ops"
    using Cons.prems(3) by (cases opn) simp_all
  have "ledgerInv (run (applyOp s opn) ops)"
    by (rule Cons.IH [OF step noOrphans_applyOp [OF Cons.prems(2)] fresh])
  then show ?case by (simp add: run_def)
qed

lemma ledgerInv_reachable: "freshIds initialState ops \<Longrightarrow> ledgerInv (run initialState ops)"
  by (rule ledgerInv_run [OF ledgerInv_initial noOrphans_initial])

subsection \<open>The example inputs, evaluated\<close>

lemmas parse_defs = parseFloat_def unsignedLiteral_def isWhiteSpace_def isDigit_def
  digitsValue_def digitValue_def scale10_def exponentPart_def

lemmas handler_defs = handleCustomerSubmit_def handleTransactionSubmit_def deleteCustomer_def
  setCustomers_def setTransactions_def customerTransactions_def orElse_def truthy_def Let_def
  run_def initialState_def clock_def customerForm_def transactionForm_def signedAmount_def
  minus_number_def

lemma natToString_digit [simp]: "n < 10 \<Longrightarrow> natToString n = [''0123456789'' ! n]"
  by (simp add: natToString.simps)

lemma parse_examples [simp]:
  "parseFloat ''100.00'' = Fin 100"
  "parseFloat ''50.00'' = Fin 50"
  "parseFloat ''30.00'' = Fin 30"
  "parseFloat ''20'' = Fin 20"
  "parseFloat ''0'' = Fin 0"
  "parseFloat ''-5'' = Fin (- 5)"
  "parseFloat [] = NaN"
  "parseFloat ''10'' = Fin 10"
  "parseFloat ''1'' = Fin 1"
  "parseFloat ''12.50'' = Fin (25 / 2)"
  by (simp_all add: parse_defs)

lemma scenario_state:
  "run initialState scenarioOps =
     \<lparr> customers = [scenarioCustomer],
       transactions =
         [\<lparr> Transaction.id = ''2'', customerId = ''1'', type = ''debit'', amount = Fin 50,
            date = ''2023-11-14'', description = [], Transaction.balance = Fin 150 \<rparr>,
          \<lparr> Transaction.id = ''3'', customerId = ''1'', type = ''credit'', amount = Fin 30,
            date = ''2023-11-14'', description = [], Transaction.balance = Fin 120 \<rparr>] \<rparr>"
  by (simp add: scenarioOps_def scenarioCustomer_def handler_defs)

lemma scenario_fresh: "freshIds initialState scenarioOps"
  by (simp add: scenarioOps_def handler_defs)

lemma scenario_member: "scenarioCustomer \<in> set (customers (run initialState scenarioOps))"
  by (simp add: scenario_state)

lemma scenario_history:
  "customerTransactions (Some scenarioCustomer) (run initialState scenarioOps) =
     [\<lparr> Transaction.id = ''2'', customerId = ''1'', type = ''debit'', amount = Fin 50,
        date = ''2023-11-14'', description = [], Transaction.balance = Fin 150 \<rparr>,
      \<lparr> Transaction.id = ''3'', customerId = ''1'', type = ''credit'', amount = Fin 30,
        date = ''2023-11-14'', description = [], Transaction.balance = Fin 120 \<rparr>]"
  by (simp add: scenario_state customerTransactions_def scenarioCustomer_def)

lemma oneCustomer_state:
  "run initialState oneCustomerOps =
     \<lparr> customers =
         [\<lparr> Customer.id = ''1'', name = ''C'', phone = [], email = [], address = [],
            openingBalance = Fin 100, notes' = [], Customer.balance = Fin 100,
            lastTransaction = ''11/14/2023'' \<rparr>],
       transactions = [] \<rparr>"
  by (simp add: oneCustomerOps_def handler_defs)

lemma twoCustomers_state:
  "run initialState twoCustomersOps =
     \<lparr> customers =
         [\<lparr> Customer.id = ''1'', name = ''A'', phone = [], email = [], address = [],
            openingBalance = Fin 0, notes' = [], Customer.balance = Fin 0,
            lastTransaction = ''11/14/2023'' \<rparr>, customerB],
       transactions = [] \<rparr>"
  by (simp add: twoCustomersOps_def customerB_def handler_defs)

lemma sameClock_state:
  "run initialState sameClockOps = \<lparr> customers = [customerP, customerQ], transactions = [] \<rparr>"
  by (simp add: sameClockOps_def customerP_def customerQ_def handler_defs)

lemma sameClock_debited:
  "fst (handleTransactionSubmit (clock 6) sameClockDebit (run initialState sameClockOps))
   = \<lparr> customers = [customerP\<lparr> Customer.balance := Fin 11 \<rparr>, customerQDebited],
       transactions = [sameClockTransaction] \<rparr>"
  unfolding sameClock_state
  by (simp add: sameClockDebit_def customerP_def customerQ_def customerQDebited_def
        sameClockTransaction_def handler_defs)

lemma sameClock_run:
  "run initialState (sameClockOps @ [RecordTransaction (clock 6) sameClockDebit])
   = \<lparr> customers = [customerP\<lparr> Customer.balance := Fin 11 \<rparr>, customerQDebited],
       transactions = [sameClockTransaction] \<rparr>"
  by (simp add: run_append run_single sameClock_debited)

lemma sameClock_history:
  "customerTransactions (Some customerQDebited)
     (run initialState (sameClockOps @ [RecordTransaction (clock 6) sameClockDebit]))
   = [sameClockTransaction]"
  by (simp add: sameClock_run customerTransactions_def customerQDebited_def customerQ_def
        sameClockTransaction_def)

section \<open>The properties of the ledger\<close>

text \<open>
  C1, as the code has it. After any sequence of customer creations, recorded transactions and
  deletions, starting from the empty store, in which every creation reads a clock value that is
  not the id of a customer then in the store, the stored balance of every customer in the store
  is its opening balance plus the signed amounts of its transactions, added one by one in the
  order of their insertion.
\<close>

theorem balance_invariant:
  assumes "freshIds initialState ops"
    and "c \<in> set (customers (run initialState ops))"
  shows "Customer.balance c
         = foldl (\<lambda>acc t. acc + signedAmount t) (Customer.openingBalance c)
             (customerTransactions (Some c) (run initialState ops))"
proof -
  from ledgerInv_reachable [OF assms(1)] assms(2)
  have ch: "chained (Customer.openingBalance c)
              (customerTransactions (Some c) (run initialState ops))"
    and lb: "Customer.balance c = lastBalance (Customer.openingBalance c)
               (customerTransactions (Some c) (run initialState ops))"
    by (simp_all add: ledgerInv_def)
  from chained_foldl [OF ch] lb show ?thesis by simp
qed

text \<open>
  The scenario of the specification: a customer with opening balance 100.00, a debit of 50.00
  and a credit of 30.00; the stored balance 120 is the fold over the two transactions.
\<close>

theorem balance_invariant_witness:
  "freshIds initialState scenarioOps
   \<and> scenarioCustomer \<in> set (customers (run initialState scenarioOps))
   \<and> Customer.balance scenarioCustomer
       = foldl (\<lambda>acc t. acc + signedAmount t) (Customer.openingBalance scenarioCustomer)
           (customerTransactions (Some scenarioCustomer) (run initialState scenarioOps))"
  by (intro conjI scenario_fresh scenario_member
        balance_invariant [OF scenario_fresh scenario_member])

text \<open>
  C1 as stated fails. The handler takes the id from \<^verbatim>\<open>Date.now()\<close> and nothing keeps two
  customers from getting the same one. After P (opening 10) and Q (opening 20) are created at the
  same clock value 5 and 1 is debited for the id 5, \<^verbatim>\<open>find\<close> returns P and the update writes P's
  new balance 11 into every customer with that id: Q is in the store with balance 11, while its
  opening balance plus the signed amounts of the transactions of its id is 21.
\<close>

theorem balance_fails_on_shared_id:
  "customerQDebited
     \<in> set (customers (run initialState
                (sameClockOps @ [RecordTransaction (clock 6) sameClockDebit])))
   \<and> Customer.balance customerQDebited = Fin 11
   \<and> foldl (\<lambda>acc t. acc + signedAmount t) (Customer.openingBalance customerQDebited)
        (customerTransactions (Some customerQDebited)
           (run initialState (sameClockOps @ [RecordTransaction (clock 6) sameClockDebit])))
     = Fin 21"
  unfolding sameClock_history
  by (simp add: sameClock_run customerQDebited_def customerQ_def sameClockTransaction_def
        signedAmount_def)

text \<open>
  C2, as the code has it. After any sequence of operations from the empty store in which every
  creation reads a clock value that is not the id of a customer then in the store: for every
  customer of the store and every index \<open>i\<close> into its transaction history, in insertion order,
  the running balance recorded in transaction \<open>i\<close> is the running balance recorded in
  transaction \<open>i - 1\<close> plus the signed amount of transaction \<open>i\<close>; for \<open>i = 0\<close> the previous value
  is the customer's opening balance.
\<close>

theorem running_balance_chain:
  assumes "freshIds initialState ops"
    and "c \<in> set (customers (run initialState ops))"
    and "i < length (customerTransactions (Some c) (run initialState ops))"
  shows "Transaction.balance (customerTransactions (Some c) (run initialState ops) ! i)
         = (if i = 0 then Customer.openingBalance c
            else Transaction.balance
                   (customerTransactions (Some c) (run initialState ops) ! (i - 1)))
           + signedAmount (customerTransactions (Some c) (run initialState ops) ! i)"
proof -
  from ledgerInv_reachable [OF assms(1)] assms(2)
  have "chained (Customer.openingBalance c)
          (customerTransactions (Some c) (run initialState ops))"
    by (simp add: ledgerInv_def)
  then show ?thesis using assms(3) by (rule chained_nth)
qed

text \<open>In the scenario, the second transaction (index 1) continues the first: 120 = 150 - 30.\<close>

theorem running_balance_chain_witness:
  "freshIds initialState scenarioOps
   \<and> scenarioCustomer \<in> set (customers (run initialState scenarioOps))
   \<and> 1 < length (customerTransactions (Some scenarioCustomer) (run initialState scenarioOps))
   \<and> Transaction.balance
         (customerTransactions (Some scenarioCustomer) (run initialState scenarioOps) ! 1)
       = Transaction.balance
           (customerTransactions (Some scenarioCustomer) (run initialState scenarioOps) ! 0)
         + signedAmount
             (customerTransactions (Some scenarioCustomer) (run initialState scenarioOps) ! 1)"
proof -
  have len: "1 < length (customerTransactions (Some scenarioCustomer)
                           (run initialState scenarioOps))"
    by (simp add: scenario_history)
  from running_balance_chain [OF scenario_fresh scenario_member len]
  show ?thesis using scenario_fresh scenario_member len by simp
qed

text \<open>
  C2 as stated fails at \<open>i = 0\<close> in the run with the shared id: the only transaction of Q's id
  records the running balance 11, computed from P's balance 10, while Q's opening balance plus
  the signed amount is 21.
\<close>

theorem chain_fails_on_shared_id:
  "customerQDebited
     \<in> set (customers (run initialState
                (sameClockOps @ [RecordTransaction (clock 6) sameClockDebit])))
   \<and> 0 < length (customerTransactions (Some customerQDebited)
                   (run initialState (sameClockOps @ [RecordTransaction (clock 6) sameClockDebit])))
   \<and> Transaction.balance
        (customerTransactions (Some customerQDebited)
           (run initialState (sameClockOps @ [RecordTransaction (clock 6) sameClockDebit])) ! 0)
     = Fin 11
   \<and> Customer.openingBalance customerQDebited
       + signedAmount
           (customerTransactions (Some customerQDebited)
              (run initialState (sameClockOps @ [RecordTransaction (clock 6) sameClockDebit])) ! 0)
     = Fin 21"
  unfolding sameClock_history
  by (simp add: sameClock_run customerQDebited_def customerQ_def sameClockTransaction_def
        signedAmount_def)

text \<open>
  C3, as the code has it. \<^verbatim>\<open>handleTransactionSubmit\<close> does not look at the sign of the amount:
  whenever the customer id resolves, whatever the amount (zero and negative amounts too), one
  transaction carrying that amount is appended, its running balance is the customer's balance
  plus its signed amount, every customer with that id gets this balance, and success is
  notified.
\<close>

theorem record_any_amount:
  assumes "find (\<lambda>c. Customer.id c = transactionCustomer f) (customers s) = Some customer"
  shows "\<exists>t. transactions (fst (handleTransactionSubmit env f s)) = transactions s @ [t]
           \<and> customerId t = transactionCustomer f
           \<and> amount t = parseFloat (transactionAmount f)
           \<and> Transaction.balance t = Customer.balance customer + signedAmount t
           \<and> map Customer.balance
                (filter (\<lambda>c. Customer.id c = transactionCustomer f)
                   (customers (fst (handleTransactionSubmit env f s))))
              = map (\<lambda>c. Transaction.balance t)
                  (filter (\<lambda>c. Customer.id c = transactionCustomer f) (customers s))
           \<and> snd (handleTransactionSubmit env f s)
              = Some (''Transaction recorded successfully!'', success)"
proof -
  have flt: "map Customer.balance
               (filter (\<lambda>c. Customer.id c = k)
                  (map (\<lambda>c. if Customer.id c = k
                            then c\<lparr> Customer.balance := nb, lastTransaction := d \<rparr>
                            else c) cs))
             = map (\<lambda>c. nb) (filter (\<lambda>c. Customer.id c = k) cs)" for k nb d cs
    by (induction cs) auto
  show ?thesis
    using assms
    by (simp add: handleTransactionSubmit_def Let_def set_simps signedAmount_def
          minus_number_conv flt)
qed

text \<open>A credit of amount 0 for the customer of a one-customer store is recorded.\<close>

theorem record_any_amount_witness:
  "transactions (fst (handleTransactionSubmit (clock 2) (transactionForm ''1'' ''credit'' ''0'')
       (run initialState oneCustomerOps)))
   = [\<lparr> Transaction.id = ''2'', customerId = ''1'', type = ''credit'', amount = Fin 0,
        date = ''2023-11-14'', description = [], Transaction.balance = Fin 100 \<rparr>]"
proof -
  have found:
    "find (\<lambda>c. Customer.id c = transactionCustomer (transactionForm ''1'' ''credit'' ''0''))
       (customers (run initialState oneCustomerOps))
     = Some (hd (customers (run initialState oneCustomerOps)))"
    by (simp add: oneCustomer_state transactionForm_def)
  from record_any_amount [OF found, of "clock 2"] obtain t where
    "transactions (fst (handleTransactionSubmit (clock 2) (transactionForm ''1'' ''credit'' ''0'')
       (run initialState oneCustomerOps))) = transactions (run initialState oneCustomerOps) @ [t]"
    by blast
  then show ?thesis
    unfolding oneCustomer_state by (simp add: handler_defs)
qed

text \<open>
  C3 as stated fails: a debit of amount -5 for a customer with balance 100 is not rejected. The
  transaction is appended with running balance 95, the customer's balance becomes 95 and the
  notification is the success one. A credit of amount 0 is appended as well.
\<close>

theorem record_nonpositive_accepted:
  "parseFloat (transactionAmount (transactionForm ''1'' ''debit'' ''-5'')) = Fin (- 5)
   \<and> transactions (fst (handleTransactionSubmit (clock 2) (transactionForm ''1'' ''debit'' ''-5'')
        (run initialState oneCustomerOps)))
     = [\<lparr> Transaction.id = ''2'', customerId = ''1'', type = ''debit'', amount = Fin (- 5),
          date = ''2023-11-14'', description = [], Transaction.balance = Fin 95 \<rparr>]
   \<and> map Customer.balance
        (customers (fst (handleTransactionSubmit (clock 2) (transactionForm ''1'' ''debit'' ''-5'')
           (run initialState oneCustomerOps))))
     = [Fin 95]
   \<and> snd (handleTransactionSubmit (clock 2) (transactionForm ''1'' ''debit'' ''-5'')
        (run initialState oneCustomerOps))
     = Some (''Transaction recorded successfully!'', success)
   \<and> parseFloat (transactionAmount (transactionForm ''1'' ''credit'' ''0'')) = Fin 0
   \<and> transactions (fst (handleTransactionSubmit (clock 2) (transactionForm ''1'' ''credit'' ''0'')
        (run initialState oneCustomerOps)))
     = [\<lparr> Transaction.id = ''2'', customerId = ''1'', type = ''credit'', amount = Fin 0,
          date = ''2023-11-14'', description = [], Transaction.balance = Fin 100 \<rparr>]"
  unfolding oneCustomer_state by (simp add: handler_defs)

text \<open>
  C4, as the code has it. When the customer id of the form does not resolve,
  \<^verbatim>\<open>handleTransactionSubmit\<close> returns at once: both arrays are unchanged and nothing is notified,
  neither an error nor a success.
\<close>

theorem record_unknown_silent:
  assumes "transactionCustomer f \<notin> set (map Customer.id (customers s))"
  shows "handleTransactionSubmit env f s = (s, None)"
  using assms by (simp add: record_not_found find_None_id)

theorem record_unknown_silent_witness:
  "transactionCustomer (transactionForm ''999'' ''debit'' ''20'')
     \<notin> set (map Customer.id (customers (run initialState scenarioOps)))
   \<and> handleTransactionSubmit (clock 4) (transactionForm ''999'' ''debit'' ''20'')
        (run initialState scenarioOps)
     = (run initialState scenarioOps, None)"
proof -
  have unknown: "transactionCustomer (transactionForm ''999'' ''debit'' ''20'')
     \<notin> set (map Customer.id (customers (run initialState scenarioOps)))"
    by (simp add: scenario_state scenarioCustomer_def transactionForm_def)
  from record_unknown_silent [OF unknown] unknown show ?thesis by blast
qed

text \<open>
  C4 as stated fails in its first half: for the unknown id 2 in a store whose only customer has
  id 1, the handler shows no notification at all, so no error is reported.
\<close>

theorem record_unknown_reports_nothing:
  "find (\<lambda>c. Customer.id c = transactionCustomer (transactionForm ''2'' ''debit'' ''20''))
     (customers (run initialState oneCustomerOps)) = None
   \<and> snd (handleTransactionSubmit (clock 2) (transactionForm ''2'' ''debit'' ''20'')
        (run initialState oneCustomerOps)) = None"
  unfolding oneCustomer_state by (simp add: handler_defs)




text \<open>
  C6, as the code has it. Recording a transaction for one customer leaves every customer with
  another id as it is (the whole record, so its balance and its \<^verbatim>\<open>lastTransaction\<close> too) and adds
  no transaction to the history of such a customer.
\<close>

theorem record_frame:
  assumes "B \<in> set (customers s)"
    and "Customer.id B \<noteq> transactionCustomer f"
  shows "B \<in> set (customers (fst (handleTransactionSubmit env f s)))
         \<and> filter (\<lambda>c. Customer.id c = Customer.id B)
             (customers (fst (handleTransactionSubmit env f s)))
           = filter (\<lambda>c. Customer.id c = Customer.id B) (customers s)
         \<and> customerTransactions (Some B) (fst (handleTransactionSubmit env f s))
           = customerTransactions (Some B) s"
proof (cases "find (\<lambda>c. Customer.id c = transactionCustomer f) (customers s)")
  case None
  then show ?thesis using assms(1) by (simp add: record_not_found)
next
  case (Some customer)
  let ?s' = "fst (handleTransactionSubmit env f s)"
  note cs = record_customers [OF Some, of env]
  from record_transactions [OF Some, of env] obtain t where
    ts: "transactions ?s' = transactions s @ [t]" and tc: "customerId t = transactionCustomer f"
    by blast
  have mem: "B \<in> set (customers ?s')"
    unfolding cs using assms by (auto simp: image_iff intro!: bexI [of _ B])
  have flt: "filter (\<lambda>c. Customer.id c = Customer.id B) (customers ?s')
             = filter (\<lambda>c. Customer.id c = Customer.id B) (customers s)"
    unfolding cs using assms(2) by (simp add: filter_map_other)
  have hist: "customerTransactions (Some B) ?s' = customerTransactions (Some B) s"
    using assms(2) by (simp add: history_Some ts tc)
  from mem flt hist show ?thesis by blast
qed

text \<open>
  The scenario of the specification: customers A and B with opening balance 0; after a debit of
  20 for A, B is in the store with balance 0 and its history is empty.
\<close>

theorem record_frame_witness:
  "customerB \<in> set (customers (run initialState twoCustomersOps))
   \<and> Customer.id customerB \<noteq> transactionCustomer (transactionForm ''1'' ''debit'' ''20'')
   \<and> customerB \<in> set (customers (fst (handleTransactionSubmit (clock 3)
         (transactionForm ''1'' ''debit'' ''20'') (run initialState twoCustomersOps))))
   \<and> Customer.balance customerB = Fin 0
   \<and> customerTransactions (Some customerB) (fst (handleTransactionSubmit (clock 3)
         (transactionForm ''1'' ''debit'' ''20'') (run initialState twoCustomersOps))) = []"
proof -
  have mem: "customerB \<in> set (customers (run initialState twoCustomersOps))"
    by (simp add: twoCustomers_state)
  have other:
    "Customer.id customerB \<noteq> transactionCustomer (transactionForm ''1'' ''debit'' ''20'')"
    by (simp add: customerB_def transactionForm_def)
  have before: "customerTransactions (Some customerB) (run initialState twoCustomersOps) = []"
    by (simp add: twoCustomers_state customerTransactions_def)
  from record_frame [OF mem other, of "clock 3"] mem other before
  show ?thesis by (simp add: customerB_def)
qed

text \<open>
  C6 as stated fails for two distinct customers that share an id. P and Q, created at the same
  clock value, are both in the store; a debit of 1 recorded for P sets Q's balance to 11 too, so
  Q's record of before is no longer in the store, and the new transaction is in Q's history.
\<close>

theorem frame_fails_on_shared_id:
  "customerP \<in> set (customers (run initialState sameClockOps))
   \<and> customerQ \<in> set (customers (run initialState sameClockOps))
   \<and> customerP \<noteq> customerQ
   \<and> transactionCustomer sameClockDebit = Customer.id customerP
   \<and> map Customer.balance
        (customers (fst (handleTransactionSubmit (clock 6) sameClockDebit
           (run initialState sameClockOps))))
     = [Fin 11, Fin 11]
   \<and> customerQ
       \<notin> set (customers (fst (handleTransactionSubmit (clock 6) sameClockDebit
                  (run initialState sameClockOps))))
   \<and> customerTransactions (Some customerQ) (run initialState sameClockOps) = []
   \<and> customerTransactions (Some customerQ)
        (fst (handleTransactionSubmit (clock 6) sameClockDebit (run initialState sameClockOps)))
     = [sameClockTransaction]"
  unfolding sameClock_debited
  by (simp add: sameClock_state customerTransactions_def customerP_def customerQ_def
        customerQDebited_def sameClockTransaction_def sameClockDebit_def transactionForm_def)

text \<open>
  C7, as the code has it. After any sequence of operations from the empty store in which every
  creation reads a clock value that is not the id of a customer then in the store: for every
  customer of the store, what the handlers have stored one transaction at a time is what the
  reference function computes from the whole history: \<open>recomputeBalance\<close>, applied to the opening
  balance and the customer's transactions in insertion order, returns the stored balance and the
  list of the recorded running balances.
\<close>

theorem incremental_equals_recompute:
  assumes "freshIds initialState ops"
    and "c \<in> set (customers (run initialState ops))"
  shows "recomputeBalance (Customer.openingBalance c)
           (customerTransactions (Some c) (run initialState ops))
         = (Customer.balance c,
            map Transaction.balance (customerTransactions (Some c) (run initialState ops)))"
proof -
  from ledgerInv_reachable [OF assms(1)] assms(2)
  have ch: "chained (Customer.openingBalance c)
              (customerTransactions (Some c) (run initialState ops))"
    and lb: "Customer.balance c = lastBalance (Customer.openingBalance c)
               (customerTransactions (Some c) (run initialState ops))"
    by (simp_all add: ledgerInv_def)
  from chained_recompute [OF ch] lb show ?thesis by simp
qed

text \<open>In the scenario the reference function returns 120 and the running balances 150, 120.\<close>

theorem incremental_equals_recompute_witness:
  "recomputeBalance (Fin 100)
     (customerTransactions (Some scenarioCustomer) (run initialState scenarioOps))
   = (Fin 120, [Fin 150, Fin 120])"
  using incremental_equals_recompute [OF scenario_fresh scenario_member]
  unfolding scenario_history by (simp add: scenarioCustomer_def signedAmount_def)

text \<open>
  C7 as stated fails in the run with the shared id: for Q the reference function returns the
  balance 21 and the running balances [21], and the handlers have stored 11 and [11].
\<close>

theorem recompute_differs_on_shared_id:
  "customerQDebited
     \<in> set (customers (run initialState
                (sameClockOps @ [RecordTransaction (clock 6) sameClockDebit])))
   \<and> recomputeBalance (Customer.openingBalance customerQDebited)
        (customerTransactions (Some customerQDebited)
           (run initialState (sameClockOps @ [RecordTransaction (clock 6) sameClockDebit])))
     = (Fin 21, [Fin 21])
   \<and> (Customer.balance customerQDebited,
       map Transaction.balance
         (customerTransactions (Some customerQDebited)
            (run initialState (sameClockOps @ [RecordTransaction (clock 6) sameClockDebit]))))
     = (Fin 11, [Fin 11])"
  unfolding sameClock_history
  by (simp add: sameClock_run customerQDebited_def customerQ_def sameClockTransaction_def
        signedAmount_def)



text \<open>
  C9. In every state that a sequence of operations reaches from the empty store, deleting a
  customer id that no customer of the store has leaves the state as it is; the notification is
  the success one, so no error is signalled.
\<close>

theorem delete_unknown_noop:
  assumes "cid \<notin> set (map Customer.id (customers (run initialState ops)))"
  shows "deleteCustomer cid (run initialState ops)
         = (run initialState ops, Some (''Customer deleted successfully!'', success))"
proof -
  let ?s = "run initialState ops"
  have "noOrphans ?s" by (rule noOrphans_run [OF noOrphans_initial])
  with assms have ts: "filter (\<lambda>t. customerId t \<noteq> cid) (transactions ?s) = transactions ?s"
    by (auto simp: noOrphans_def filter_id_conv)
  from assms have cs: "filter (\<lambda>c. Customer.id c \<noteq> cid) (customers ?s) = customers ?s"
    by (auto simp: filter_id_conv)
  show ?thesis by (simp add: deleteCustomer_def setCustomers_def setTransactions_def ts cs)
qed

text \<open>
  In the scenario no customer has id 7, and deleting it changes nothing. Deleting customer 1 a
  second time changes nothing either.
\<close>

theorem delete_unknown_noop_witness:
  "''7'' \<notin> set (map Customer.id (customers (run initialState scenarioOps)))
   \<and> deleteCustomer ''7'' (run initialState scenarioOps)
       = (run initialState scenarioOps, Some (''Customer deleted successfully!'', success))
   \<and> ''1'' \<notin> set (map Customer.id
                     (customers (run initialState (scenarioOps @ [DeleteCustomer ''1'']))))
   \<and> deleteCustomer ''1'' (run initialState (scenarioOps @ [DeleteCustomer ''1'']))
       = (run initialState (scenarioOps @ [DeleteCustomer ''1'']),
          Some (''Customer deleted successfully!'', success))"
proof -
  have unknown: "''7'' \<notin> set (map Customer.id (customers (run initialState scenarioOps)))"
    by (simp add: scenario_state scenarioCustomer_def)
  have deleted: "run initialState (scenarioOps @ [DeleteCustomer ''1''])
                 = \<lparr> customers = [], transactions = [] \<rparr>"
    unfolding run_append scenario_state
    by (simp add: run_def deleteCustomer_def setCustomers_def setTransactions_def
          scenarioCustomer_def)
  have again: "''1'' \<notin> set (map Customer.id
                  (customers (run initialState (scenarioOps @ [DeleteCustomer ''1'']))))"
    by (simp add: deleted)
  from delete_unknown_noop [OF unknown] delete_unknown_noop [OF again] unknown again
  show ?thesis by blast
qed

text \<open>
  C10. When the opening balance of the form does not parse as a number (\<^verbatim>\<open>parseFloat\<close> gives
  \<^verbatim>\<open>NaN\<close>, as it does for the empty string), the customer is created all the same, with opening
  balance 0 and balance 0; no transaction is created and success is notified.
\<close>

theorem create_unparseable_opening:
  assumes "parseFloat (CustomerForm.openingBalance f) = NaN"
  shows "\<exists>c. customers (fst (handleCustomerSubmit env f s)) = customers s @ [c]
           \<and> Customer.openingBalance c = Fin 0
           \<and> Customer.balance c = Fin 0
           \<and> transactions (fst (handleCustomerSubmit env f s)) = transactions s
           \<and> snd (handleCustomerSubmit env f s)
              = Some (''Customer added successfully!'', success)"
  using assms
  by (simp add: handleCustomerSubmit_def Let_def set_simps orElse_def truthy_def)

text \<open>The empty string does not parse, and the customer created from it has balance 0.\<close>

theorem create_unparseable_opening_witness:
  "parseFloat (CustomerForm.openingBalance (customerForm ''D'' [])) = NaN
   \<and> (\<exists>c. customers (fst (handleCustomerSubmit (clock 1) (customerForm ''D'' []) initialState))
             = [c]
           \<and> Customer.openingBalance c = Fin 0
           \<and> Customer.balance c = Fin 0)"
proof -
  have nan: "parseFloat (CustomerForm.openingBalance (customerForm ''D'' [])) = NaN"
    by (simp add: customerForm_def)
  from create_unparseable_opening [OF nan, of "clock 1" initialState] nan
  show ?thesis by (auto simp: initialState_def)
qed

end
